theory Spec2Isabelle
  imports Complex_Main
begin

section \<open>Values that cross an asynchronous boundary\<close>

text \<open>
  Every \<^verbatim>\<open>catch\<close> clause of the client tests \<^verbatim>\<open>err instanceof Error\<close> and reads
  \<^verbatim>\<open>err.message\<close> when the test succeeds, a fixed fallback text otherwise. A thrown
  value is therefore either an \<^verbatim>\<open>Error\<close> with its message or something else.
\<close>

datatype thrown = Error string | NonError

definition message_or :: "thrown \<Rightarrow> string \<Rightarrow> string" where
  "message_or err fallback = (case err of Error m \<Rightarrow> m | NonError \<Rightarrow> fallback)"


section \<open>The remote service client (services/api.ts)\<close>

text \<open>
  \<^verbatim>\<open>QueryParams\<close> of types/api.ts: every field is optional. The sort fields are
  string literal types in the declaration; the dashboard writes them through a cast, so
  they are strings here.
\<close>

record QueryParams =
  page :: "int option"
  page_size :: "int option"
  strategy_name :: "string option"
  sort_by :: "string option"
  sort_order :: "string option"

datatype qvalue = QNum int | QStr string

datatype http_method = GET | POST

text \<open>
  A request as \<^verbatim>\<open>ApiService.fetch\<close> receives it: the method, the path, the entries handed
  to \<^verbatim>\<open>URLSearchParams\<close> and the value given to \<^verbatim>\<open>JSON.stringify\<close> for the body, if any.
  The entries are a map from keys to values: the order in which they are written is
  the insertion order of the object's keys, which is not represented. No entry yields
  an empty query string and the bare path.
\<close>

record 'b http_request =
  http_verb :: http_method
  path :: string
  query :: "string \<rightharpoonup> qvalue"
  body :: "'b option"

text \<open>
  \<^verbatim>\<open>Object.entries(params || {}).filter(([_, value]) => value !== undefined)\<close>: the
  entries of the fields that are defined.
\<close>

definition defined_entries :: "QueryParams \<Rightarrow> string \<rightharpoonup> qvalue" where
  "defined_entries params =
     (\<lambda>key. if key = ''page'' then map_option QNum (page params)
            else if key = ''page_size'' then map_option QNum (page_size params)
            else if key = ''strategy_name'' then map_option QStr (strategy_name params)
            else if key = ''sort_by'' then map_option QStr (sort_by params)
            else if key = ''sort_order'' then map_option QStr (sort_order params)
            else None)"

definition getAuditsSummary :: "'b http_request" where
  "getAuditsSummary =
     \<lparr>http_verb = GET, path = ''/audits/summary'', query = Map.empty, body = None\<rparr>"

definition getAuditsList :: "QueryParams \<Rightarrow> 'b http_request" where
  "getAuditsList params =
     \<lparr>http_verb = GET, path = ''/audits'', query = defined_entries params, body = None\<rparr>"

definition getAuditDetail :: "string \<Rightarrow> 'b http_request" where
  "getAuditDetail auditId =
     \<lparr>http_verb = GET, path = ''/audit/'' @ auditId, query = Map.empty, body = None\<rparr>"

definition submitAudit :: "'b \<Rightarrow> 'b http_request" where
  "submitAudit payload =
     \<lparr>http_verb = POST, path = ''/audit'', query = Map.empty, body = Some payload\<rparr>"

text \<open>The public members of \<^verbatim>\<open>class ApiService\<close>, in declaration order.\<close>

definition ApiService_methods :: "string list" where
  "ApiService_methods =
     [''getAuditsSummary'', ''getAuditsList'', ''getAuditDetail'', ''submitAudit'']"

text \<open>
  The members of \<^verbatim>\<open>apiService\<close> that pages/SubmitAuditPage.tsx invokes:
  \<^verbatim>\<open>loadStrategies\<close> calls the first, \<^verbatim>\<open>handleSubmit\<close> the second and the third.
\<close>

datatype 'b api_call =
    Call_getStrategies
  | Call_getStrategyByName string
  | Call_submitAudit 'b

fun member_name :: "'b api_call \<Rightarrow> string" where
  "member_name Call_getStrategies = ''getStrategies''"
| "member_name (Call_getStrategyByName n) = ''getStrategyByName''"
| "member_name (Call_submitAudit payload) = ''submitAudit''"

definition provided :: "'b api_call \<Rightarrow> bool" where
  "provided c = (member_name c \<in> set ApiService_methods)"


section \<open>The paginated collection loader (hooks/useAudits.ts)\<close>

text \<open>
  The hook owns three state cells. An effect run allocates its own \<^verbatim>\<open>mounted\<close> local,
  which its cleanup clears; \<^verbatim>\<open>refetch\<close> has no such local. The model keeps the cells,
  the parameters of the latest render, one flag per effect run (in run order), the
  requests that have been issued and not yet settled (with the origin and the query
  of each), and the setter calls made so far.
\<close>

datatype 'r setter_call = SetData 'r | SetLoading bool | SetError "string option"

datatype origin = FromEffect nat | FromRefetch

record 'r useAudits_state =
  data :: "'r option"
  loading :: bool
  error :: "string option"
  params :: QueryParams
  mounted :: "bool list"
  inflight :: "(nat \<times> origin \<times> QueryParams) list"
  issued :: nat
  calls :: "'r setter_call list"

definition setData :: "'r \<Rightarrow> 'r useAudits_state \<Rightarrow> 'r useAudits_state" where
  "setData result s = s\<lparr>data := Some result, calls := calls s @ [SetData result]\<rparr>"

definition setLoading :: "bool \<Rightarrow> 'r useAudits_state \<Rightarrow> 'r useAudits_state" where
  "setLoading b s = s\<lparr>loading := b, calls := calls s @ [SetLoading b]\<rparr>"

definition setError :: "string option \<Rightarrow> 'r useAudits_state \<Rightarrow> 'r useAudits_state" where
  "setError e s = s\<lparr>error := e, calls := calls s @ [SetError e]\<rparr>"

definition initial :: "QueryParams \<Rightarrow> 'r useAudits_state" where
  "initial p =
     \<lparr>data = None, loading = True, error = None, params = p, mounted = [],
      inflight = [], issued = 0, calls = []\<rparr>"

text \<open>\<^verbatim>\<open>apiService.getAuditsList(params)\<close>: one more request in flight.\<close>

definition issue :: "origin \<Rightarrow> 'r useAudits_state \<Rightarrow> 'r useAudits_state" where
  "issue org s =
     s\<lparr>inflight := inflight s @ [(issued s, org, params s)], issued := Suc (issued s)\<rparr>"

definition is_mounted :: "bool list \<Rightarrow> nat \<Rightarrow> bool" where
  "is_mounted flags k = (k < length flags \<and> flags ! k)"

text \<open>
  The effect body up to its \<^verbatim>\<open>await\<close>: \<^verbatim>\<open>let mounted = true\<close>, then \<^verbatim>\<open>fetchAudits()\<close>
  sets the loading cell and issues the request.
\<close>

definition run_effect :: "'r useAudits_state \<Rightarrow> 'r useAudits_state" where
  "run_effect s =
     (let k = length (mounted s)
      in issue (FromEffect k) (setLoading True (s\<lparr>mounted := mounted s @ [True]\<rparr>)))"

text \<open>The cleanup returned by the latest effect run: \<^verbatim>\<open>mounted = false\<close>.\<close>

definition cleanup :: "'r useAudits_state \<Rightarrow> 'r useAudits_state" where
  "cleanup s = s\<lparr>mounted := (mounted s)[length (mounted s) - 1 := False]\<rparr>"

definition deps :: "QueryParams \<Rightarrow> int option \<times> int option \<times> string option \<times> string option \<times> string option" where
  "deps p = (page p, page_size p, strategy_name p, sort_by p, sort_order p)"

definition mount :: "QueryParams \<Rightarrow> 'r useAudits_state" where
  "mount p = run_effect (initial p)"

text \<open>
  A later render with parameters \<open>p\<close>: when a dependency differs, the previous effect is
  cleaned up and the effect runs again.
\<close>

definition rerender :: "QueryParams \<Rightarrow> 'r useAudits_state \<Rightarrow> 'r useAudits_state" where
  "rerender p s =
     (if deps p = deps (params s) then s\<lparr>params := p\<rparr>
      else run_effect ((cleanup s)\<lparr>params := p\<rparr>))"

definition refetch :: "'r useAudits_state \<Rightarrow> 'r useAudits_state" where
  "refetch s = issue FromRefetch (setLoading True s)"

definition unmount :: "'r useAudits_state \<Rightarrow> 'r useAudits_state" where
  "unmount s = cleanup s"

text \<open>
  The rest of \<^verbatim>\<open>fetchAudits\<close> once the awaited call of effect run \<open>k\<close> has settled:
  the \<^verbatim>\<open>try\<close> or the \<^verbatim>\<open>catch\<close> branch, then \<^verbatim>\<open>finally\<close>, each behind \<^verbatim>\<open>if (mounted)\<close>.
\<close>

definition fetchAudits_settled ::
    "nat \<Rightarrow> thrown + 'r \<Rightarrow> 'r useAudits_state \<Rightarrow> 'r useAudits_state" where
  "fetchAudits_settled k outcome s =
     (let s1 = (case outcome of
                  Inr result \<Rightarrow>
                    if is_mounted (mounted s) k then setError None (setData result s) else s
                | Inl err \<Rightarrow>
                    if is_mounted (mounted s) k
                    then setError (Some (message_or err ''Failed to load audits'')) s
                    else s)
      in if is_mounted (mounted s1) k then setLoading False s1 else s1)"

text \<open>The \<^verbatim>\<open>then\<close>, \<^verbatim>\<open>catch\<close> and \<^verbatim>\<open>finally\<close> callbacks of \<^verbatim>\<open>refetch\<close>: no guard.\<close>

definition refetch_settled :: "thrown + 'r \<Rightarrow> 'r useAudits_state \<Rightarrow> 'r useAudits_state" where
  "refetch_settled outcome s =
     setLoading False
       (case outcome of
          Inr result \<Rightarrow> setError None (setData result s)
        | Inl err \<Rightarrow> setError (Some (message_or err ''Failed to load audits'')) s)"

text \<open>The response of request \<open>rid\<close> arrives; a request settles once.\<close>

definition settle :: "nat \<Rightarrow> thrown + 'r \<Rightarrow> 'r useAudits_state \<Rightarrow> 'r useAudits_state" where
  "settle rid outcome s =
     (case map_of (inflight s) rid of
        None \<Rightarrow> s
      | Some (org, q) \<Rightarrow>
          (let s' = s\<lparr>inflight := filter (\<lambda>r. fst r \<noteq> rid) (inflight s)\<rparr>
           in case org of
                FromEffect k \<Rightarrow> fetchAudits_settled k outcome s'
              | FromRefetch \<Rightarrow> refetch_settled outcome s'))"

datatype 'r event = Rerender QueryParams | Refetch | Settle nat "thrown + 'r" | Unmount

fun step_event :: "'r useAudits_state \<Rightarrow> 'r event \<Rightarrow> 'r useAudits_state" where
  "step_event s (Rerender p) = rerender p s"
| "step_event s Refetch = refetch s"
| "step_event s (Settle rid outcome) = settle rid outcome s"
| "step_event s Unmount = unmount s"

definition run :: "QueryParams \<Rightarrow> 'r event list \<Rightarrow> 'r useAudits_state" where
  "run p evs = foldl step_event (mount p) evs"

text \<open>The query a request was issued for, while it is in flight.\<close>

definition query_of :: "'r useAudits_state \<Rightarrow> nat \<Rightarrow> QueryParams option" where
  "query_of s rid = map_option snd (map_of (inflight s) rid)"

text \<open>Two dashboard queries that differ in the page number.\<close>

definition Q1 :: QueryParams where
  "Q1 = \<lparr>page = Some 1, page_size = Some 20, strategy_name = Some '''',
         sort_by = Some ''submitted_at'', sort_order = Some ''desc''\<rparr>"

definition Q2 :: QueryParams where
  "Q2 = \<lparr>page = Some 2, page_size = Some 20, strategy_name = Some '''',
         sort_by = Some ''submitted_at'', sort_order = Some ''desc''\<rparr>"


text \<open>
  What holds of the flags in every state the hook can reach: only the flag of the
  latest effect run can be up, and a request of an effect run refers to a flag that
  exists.
\<close>

fun flag_exists :: "nat \<Rightarrow> nat \<times> origin \<times> QueryParams \<Rightarrow> bool" where
  "flag_exists n (rid, FromEffect k, q) = (k < n)"
| "flag_exists n (rid, FromRefetch, q) = True"

definition flags_ok :: "'r useAudits_state \<Rightarrow> bool" where
  "flags_ok s =
     (list_all (\<lambda>b. \<not> b) (butlast (mounted s)) \<and>
      list_all (flag_exists (length (mounted s))) (inflight s))"


section \<open>Properties of the remote service client\<close>

lemmas api_defs = provided_def ApiService_methods_def

lemma defined_entries_only_defined:
  "defined_entries p ''page'' = map_option QNum (page p) \<and>
   defined_entries p ''page_size'' = map_option QNum (page_size p) \<and>
   defined_entries p ''strategy_name'' = map_option QStr (strategy_name p) \<and>
   defined_entries p ''sort_by'' = map_option QStr (sort_by p) \<and>
   defined_entries p ''sort_order'' = map_option QStr (sort_order p) \<and>
   dom (defined_entries p) \<subseteq> {''page'', ''page_size'', ''strategy_name'', ''sort_by'', ''sort_order''}"
  by (auto simp: defined_entries_def split: if_splits)

lemma getAuditsList_undefined_params:
  "query (getAuditsList \<lparr>page = None, page_size = None, strategy_name = None,
                          sort_by = None, sort_order = None\<rparr>) = Map.empty"
  by (auto simp: getAuditsList_def defined_entries_def)

text \<open>
  C4. The client is to offer one operation per remote capability, in particular the
  catalog fetch and the fetch of one template by name that the wizard invokes. The
  class declares the summary, collection, detail and submit operations only: of the
  three members the wizard calls, \<^verbatim>\<open>getStrategies\<close> and \<^verbatim>\<open>getStrategyByName\<close> are not
  members of \<^verbatim>\<open>ApiService\<close>; only \<^verbatim>\<open>submitAudit\<close> is.
\<close>

theorem ApiService_lacks_strategy_operations:
  "\<not> provided (Call_getStrategies :: 'b api_call) \<and>
   \<not> provided (Call_getStrategyByName n :: 'b api_call) \<and>
   provided (Call_submitAudit (payload :: 'b)) \<and>
   length ApiService_methods = 4"
  by (simp add: api_defs)


section \<open>Properties of the collection loader\<close>

lemmas useAudits_defs =
  run_def mount_def initial_def run_effect_def issue_def setLoading_def setData_def
  setError_def rerender_def refetch_def unmount_def cleanup_def settle_def
  fetchAudits_settled_def refetch_settled_def is_mounted_def deps_def message_or_def

lemma Q1_neq_Q2: "Q1 \<noteq> Q2" "deps Q1 \<noteq> deps Q2"
  by (simp_all add: Q1_def Q2_def deps_def)

text \<open>
  The guarded path: once the flag of effect run \<open>k\<close> is down, the settled request of
  that run changes nothing, whatever the outcome. This is the discipline of the
  effect-driven fetch.
\<close>

lemma fetchAudits_settled_unmounted:
  "\<not> is_mounted (mounted s) k \<Longrightarrow> fetchAudits_settled k outcome s = s"
  by (simp add: fetchAudits_settled_def split: sum.splits)

lemma effect_only_stale_response_discarded:
  "data (run Q1 [Rerender Q2, Settle 1 (Inr r2), Settle 0 out1]) = Some r2 \<and>
   error (run Q1 [Rerender Q2, Settle 1 (Inr r2), Settle 0 out1]) = None \<and>
   loading (run Q1 [Rerender Q2, Settle 1 (Inr r2), Settle 0 out1]) = False \<and>
   data (run Q1 [Rerender Q2, Settle 0 out1, Settle 1 (Inr r2)]) = Some r2 \<and>
   error (run Q1 [Rerender Q2, Settle 0 out1, Settle 1 (Inr r2)]) = None \<and>
   loading (run Q1 [Rerender Q2, Settle 0 out1, Settle 1 (Inr r2)]) = False"
  by (cases out1) (simp_all add: useAudits_defs Q1_def Q2_def)

lemma effect_only_no_calls_after_unmount:
  "calls (run Q1 [Unmount, Settle 0 out]) = calls (run Q1 [Unmount])"
  by (cases out) (simp_all add: useAudits_defs Q1_def)

lemma setter_fields [simp]:
  "mounted (setData r s) = mounted s" "inflight (setData r s) = inflight s"
  "mounted (setError e s) = mounted s" "inflight (setError e s) = inflight s"
  "mounted (setLoading b s) = mounted s" "inflight (setLoading b s) = inflight s"
  by (simp_all add: setData_def setError_def setLoading_def)

lemma settled_fields [simp]:
  "mounted (fetchAudits_settled k out s) = mounted s"
  "inflight (fetchAudits_settled k out s) = inflight s"
  "mounted (refetch_settled out s) = mounted s"
  "inflight (refetch_settled out s) = inflight s"
  by (simp_all add: fetchAudits_settled_def refetch_settled_def Let_def split: sum.splits)

lemma settle_fields:
  "mounted (settle rid out s) = mounted s"
  "set (inflight (settle rid out s)) \<subseteq> set (inflight s)"
  by (auto simp: settle_def Let_def split: option.splits origin.splits)

lemma flag_exists_mono: "flag_exists n r \<Longrightarrow> n \<le> m \<Longrightarrow> flag_exists m r"
  by (cases "(n, r)" rule: flag_exists.cases) auto

lemma all_down_butlast:
  "list_all Not (butlast xs) \<Longrightarrow> list_all Not (xs[length xs - Suc 0 := False])"
  by (induction xs rule: rev_induct) (simp_all add: list_all_iff)

lemma flags_ok_mount: "flags_ok (mount p)"
  by (simp add: flags_ok_def mount_def initial_def run_effect_def issue_def Let_def)

lemma flags_ok_cleanup: "flags_ok s \<Longrightarrow> flags_ok (cleanup s)"
  by (simp add: flags_ok_def cleanup_def butlast_list_update)

lemma flags_ok_run_effect:
  assumes "list_all (\<lambda>b. \<not> b) (mounted s)"
    and "list_all (flag_exists (length (mounted s))) (inflight s)"
  shows "flags_ok (run_effect s)"
  using assms
  by (auto simp: flags_ok_def run_effect_def issue_def Let_def list_all_iff
           intro: flag_exists_mono)

lemma flags_ok_step: "flags_ok s \<Longrightarrow> flags_ok (step_event s ev)"
proof (cases ev)
  case (Rerender p)
  assume ok: "flags_ok s"
  show ?thesis
  proof (cases "deps p = deps (params s)")
    case True
    with ok Rerender show ?thesis by (simp add: rerender_def flags_ok_def)
  next
    case False
    have "flags_ok (run_effect ((cleanup s)\<lparr>params := p\<rparr>))"
      using ok by (intro flags_ok_run_effect) (simp_all add: flags_ok_def cleanup_def all_down_butlast)
    with False Rerender show ?thesis by (simp add: rerender_def)
  qed
next
  case Refetch
  assume "flags_ok s"
  with Refetch show ?thesis by (simp add: refetch_def issue_def flags_ok_def)
next
  case (Settle rid out)
  assume "flags_ok s"
  with Settle settle_fields [of rid out s] show ?thesis
    by (auto simp: flags_ok_def list_all_iff)
next
  case Unmount
  assume "flags_ok s"
  with Unmount show ?thesis by (simp add: unmount_def flags_ok_cleanup)
qed

lemma flags_ok_foldl: "flags_ok s \<Longrightarrow> flags_ok (foldl step_event s evs)"
  by (induction evs arbitrary: s) (simp_all add: flags_ok_step)

lemma flags_ok_run: "flags_ok (run p evs)"
  by (simp add: run_def flags_ok_foldl flags_ok_mount)

lemma all_down_after_cleanup: "flags_ok s \<Longrightarrow> \<not> is_mounted (mounted (cleanup s)) k"
  using all_down_butlast [of "mounted s"]
  by (auto simp: flags_ok_def cleanup_def is_mounted_def list_all_length)

lemma down_stays_down_step:
  assumes "k < length (mounted s)" and "\<not> is_mounted (mounted s) k"
  shows "k < length (mounted (step_event s ev)) \<and> \<not> is_mounted (mounted (step_event s ev)) k"
proof (cases ev)
  case (Rerender p)
  with assms show ?thesis
    by (auto simp: rerender_def run_effect_def issue_def cleanup_def is_mounted_def Let_def
          nth_append nth_list_update)
next
  case Refetch
  with assms show ?thesis by (simp add: refetch_def issue_def)
next
  case (Settle rid out)
  with assms show ?thesis by (simp add: settle_fields)
next
  case Unmount
  with assms show ?thesis
    by (auto simp: unmount_def cleanup_def is_mounted_def nth_list_update)
qed

lemma down_stays_down:
  "k < length (mounted s) \<Longrightarrow> \<not> is_mounted (mounted s) k \<Longrightarrow>
   \<not> is_mounted (mounted (foldl step_event s evs)) k"
proof (induction evs arbitrary: s)
  case Nil
  then show ?case by simp
next
  case (Cons ev evs)
  from down_stays_down_step [OF Cons.prems, of ev] Cons.IH show ?case by simp
qed

text \<open>
  The guarded path in general. In any reachable state, a request of an effect run that
  is in flight when the parameters change is without effect when it settles, whatever
  happens in between; and after teardown no request of an effect run makes a setter
  call.
\<close>

lemma effect_request_superseded:
  assumes "map_of (inflight (run p evs)) rid = Some (FromEffect k, q)"
    and "deps p' \<noteq> deps (params (run p evs))"
  shows "fetchAudits_settled k out (foldl step_event (rerender p' (run p evs)) evs')
           = foldl step_event (rerender p' (run p evs)) evs'"
proof -
  let ?s = "run p evs"
  have ok: "flags_ok ?s" by (rule flags_ok_run)
  from assms(1) have "(rid, FromEffect k, q) \<in> set (inflight ?s)" by (rule map_of_SomeD)
  with ok have k: "k < length (mounted ?s)" by (auto simp: flags_ok_def list_all_iff)
  have down: "\<not> is_mounted (mounted (cleanup ?s)) k" using ok by (rule all_down_after_cleanup)
  have len: "k < length (mounted (rerender p' ?s))"
    using k assms(2) by (simp add: rerender_def run_effect_def issue_def cleanup_def Let_def)
  have "\<not> is_mounted (mounted (rerender p' ?s)) k"
    using down k assms(2)
    by (auto simp: rerender_def run_effect_def issue_def cleanup_def is_mounted_def Let_def
          nth_append)
  with len have "\<not> is_mounted (mounted (foldl step_event (rerender p' ?s) evs')) k"
    by (rule down_stays_down)
  then show ?thesis by (rule fetchAudits_settled_unmounted)
qed

lemma effect_request_after_unmount:
  assumes "map_of (inflight (unmount (run p evs))) rid = Some (FromEffect k, q)"
  shows "calls (settle rid out (unmount (run p evs))) = calls (unmount (run p evs))"
proof -
  let ?s = "unmount (run p evs)"
  let ?s' = "?s\<lparr>inflight := filter (\<lambda>r. fst r \<noteq> rid) (inflight ?s)\<rparr>"
  have "\<not> is_mounted (mounted ?s') k"
    using all_down_after_cleanup [OF flags_ok_run, of p evs k] by (simp add: unmount_def)
  then have "fetchAudits_settled k out ?s' = ?s'" by (rule fetchAudits_settled_unmounted)
  with assms show ?thesis by (simp add: settle_def)
qed

text \<open>
  C1. A response to a superseded query must be discarded, for every interleaving of
  the effect-driven fetch and \<^verbatim>\<open>refetch()\<close>. Evaluation of the hook on the trace: mount
  with \<open>Q1\<close> (request 0), \<^verbatim>\<open>refetch()\<close> (request 1, for \<open>Q1\<close>), render with \<open>Q2\<close> (request
  2, for \<open>Q2\<close>), response of request 2, response of request 1. The late response of
  the \<open>Q1\<close> refetch is applied: the hook ends on the parameters \<open>Q2\<close> showing the page of
  \<open>Q1\<close>.
\<close>

theorem useAudits_refetch_stale_response_applied:
  "query_of (run Q1 [Refetch, Rerender Q2]) 1 = Some Q1 \<and>
   query_of (run Q1 [Refetch, Rerender Q2]) 2 = Some Q2 \<and>
   data (run Q1 [Refetch, Rerender Q2, Settle 2 (Inr ''page of Q2'')])
     = Some ''page of Q2'' \<and>
   params (run Q1 [Refetch, Rerender Q2, Settle 2 (Inr ''page of Q2''),
                   Settle 1 (Inr ''page of Q1'')]) = Q2 \<and>
   data (run Q1 [Refetch, Rerender Q2, Settle 2 (Inr ''page of Q2''),
                 Settle 1 (Inr ''page of Q1'')]) = Some ''page of Q1'' \<and>
   loading (run Q1 [Refetch, Rerender Q2, Settle 2 (Inr ''page of Q2''),
                    Settle 1 (Inr ''page of Q1'')]) = False \<and>
   error (run Q1 [Refetch, Rerender Q2, Settle 2 (Inr ''page of Q2''),
                  Settle 1 (Inr ''page of Q1'')]) = None"
  by (simp add: useAudits_defs query_of_def Q1_def Q2_def)

text \<open>
  C2. After teardown no setter may be called. Evaluation of the hook on the trace:
  mount with \<open>Q1\<close>, \<^verbatim>\<open>refetch()\<close> (request 1), unmount, response of request 1. The
  flag of the only effect run is down, and the callbacks of \<^verbatim>\<open>refetch\<close> still call
  \<^verbatim>\<open>setData\<close>, \<^verbatim>\<open>setError\<close> and \<^verbatim>\<open>setLoading\<close>.
\<close>

theorem useAudits_refetch_sets_state_after_unmount:
  "mounted (run Q1 [Refetch, Unmount] :: string useAudits_state) = [False] \<and>
   calls (run Q1 [Refetch, Unmount, Settle 1 (Inr ''late'')]) =
     calls (run Q1 [Refetch, Unmount]) @ [SetData ''late'', SetError None, SetLoading False] \<and>
   calls (run Q1 [Refetch, Unmount, Settle 1 (Inl (Error ''down''))]) =
     calls (run Q1 [Refetch, Unmount] :: string useAudits_state) @
       [SetError (Some ''down''), SetLoading False]"
  by (simp add: useAudits_defs Q1_def)

text \<open>
  C3, as stated: data and error are never both non-null. It fails on a successful
  fetch followed by a failed one: the failure branch sets the error cell and leaves the
  data cell alone.
\<close>

theorem useAudits_loaded_and_failed_counterexample:
  "data (run Q1 [Settle 0 (Inr ''page 1''), Rerender Q2, Settle 1 (Inl (Error ''boom''))])
     = Some ''page 1'' \<and>
   error (run Q1 [Settle 0 (Inr ''page 1''), Rerender Q2, Settle 1 (Inl (Error ''boom''))]
          :: string useAudits_state)
     = Some ''boom''"
  by (simp add: useAudits_defs Q1_def Q2_def)

lemma fetchAudits_settled_success_cells:
  "(data (fetchAudits_settled k (Inr r) s) = Some r \<and>
    error (fetchAudits_settled k (Inr r) s) = None) \<or>
   (data (fetchAudits_settled k (Inr r) s) = data s \<and>
    error (fetchAudits_settled k (Inr r) s) = error s)"
  by (simp add: fetchAudits_settled_def setData_def setError_def setLoading_def Let_def)

lemma refetch_settled_success_cells:
  "data (refetch_settled (Inr r) s) = Some r \<and> error (refetch_settled (Inr r) s) = None"
  by (simp add: refetch_settled_def setData_def setError_def setLoading_def)

lemma fetchAudits_settled_failure_data: "data (fetchAudits_settled k (Inl e) s) = data s"
  by (simp add: fetchAudits_settled_def setError_def setLoading_def Let_def)

lemma refetch_settled_failure_data: "data (refetch_settled (Inl e) s) = data s"
  by (simp add: refetch_settled_def setError_def setLoading_def)

lemma settle_success_cells:
  "(data (settle rid (Inr r) s) = Some r \<and> error (settle rid (Inr r) s) = None) \<or>
   (data (settle rid (Inr r) s) = data s \<and> error (settle rid (Inr r) s) = error s)"
proof (cases "map_of (inflight s) rid")
  case None
  then show ?thesis by (simp add: settle_def)
next
  case (Some oq)
  obtain org q where oq: "oq = (org, q)" by (cases oq)
  let ?s' = "s\<lparr>inflight := filter (\<lambda>r. fst r \<noteq> rid) (inflight s)\<rparr>"
  show ?thesis
  proof (cases org)
    case (FromEffect k)
    with Some oq fetchAudits_settled_success_cells [of k r ?s'] show ?thesis
      by (simp add: settle_def)
  next
    case FromRefetch
    with Some oq refetch_settled_success_cells [of r ?s'] show ?thesis
      by (simp add: settle_def)
  qed
qed

lemma settle_failure_data: "data (settle rid (Inl e) s) = data s"
proof (cases "map_of (inflight s) rid")
  case None
  then show ?thesis by (simp add: settle_def)
next
  case (Some oq)
  obtain org q where oq: "oq = (org, q)" by (cases oq)
  let ?s' = "s\<lparr>inflight := filter (\<lambda>r. fst r \<noteq> rid) (inflight s)\<rparr>"
  show ?thesis
  proof (cases org)
    case (FromEffect k)
    with Some oq fetchAudits_settled_failure_data [of k e ?s'] show ?thesis
      by (simp add: settle_def)
  next
    case FromRefetch
    with Some oq refetch_settled_failure_data [of e ?s'] show ?thesis
      by (simp add: settle_def)
  qed
qed

lemma other_events_cells:
  "data (rerender p s) = data s" "error (rerender p s) = error s"
  "data (refetch s) = data s" "error (refetch s) = error s"
  "data (unmount s) = data s" "error (unmount s) = error s"
  by (simp_all add: useAudits_defs Let_def)

text \<open>
  C3, amended. The hook keeps data and error in two independent cells. A failed fetch
  that settles leaves the data as it was; a successful one either is discarded or sets
  the data and clears the error. So the pair passes from at most one of them non-null
  to both non-null only when a failed fetch settles while an earlier loaded value is
  held, and no render, refetch, teardown or successful response does so.
\<close>

theorem useAudits_both_only_by_failure_after_load:
  "data (settle rid (Inl e) s) = data s \<and>
   ((data (settle rid (Inr r) s) = Some r \<and> error (settle rid (Inr r) s) = None) \<or>
    (data (settle rid (Inr r) s) = data s \<and> error (settle rid (Inr r) s) = error s)) \<and>
   (data (step_event s ev) \<noteq> None \<and> error (step_event s ev) \<noteq> None \<and>
    (data s = None \<or> error s = None) \<longrightarrow>
      (\<exists>rid' e'. ev = Settle rid' (Inl e')) \<and> data (step_event s ev) = data s \<and>
      error s = None)"
proof (intro conjI impI)
  show "data (settle rid (Inl e) s) = data s" by (rule settle_failure_data)
next
  show "(data (settle rid (Inr r) s) = Some r \<and> error (settle rid (Inr r) s) = None) \<or>
        (data (settle rid (Inr r) s) = data s \<and> error (settle rid (Inr r) s) = error s)"
    by (rule settle_success_cells)
next
  assume both: "data (step_event s ev) \<noteq> None \<and> error (step_event s ev) \<noteq> None \<and>
                (data s = None \<or> error s = None)"
  have "(\<exists>rid' e'. ev = Settle rid' (Inl e')) \<and> data (step_event s ev) = data s \<and>
        error s = None"
  proof (cases ev)
    case (Rerender p)
    with both show ?thesis by (auto simp: other_events_cells)
  next
    case Refetch
    with both show ?thesis by (auto simp: other_events_cells)
  next
    case Unmount
    with both show ?thesis by (auto simp: other_events_cells)
  next
    case (Settle rid' outcome)
    show ?thesis
    proof (cases outcome)
      case (Inl e')
      with Settle both show ?thesis by (auto simp: settle_failure_data)
    next
      case (Inr r')
      with Settle both settle_success_cells [of rid' r' s] show ?thesis by auto
    qed
  qed
  then show "\<exists>rid' e'. ev = Settle rid' (Inl e')"
    and "data (step_event s ev) = data s" and "error s = None"
    by blast+
qed

theorem useAudits_both_only_by_failure_after_load_witness:
  "data (step_event (run Q1 [Settle 0 (Inr ''page 1''), Rerender Q2])
           (Settle 1 (Inl (Error ''boom'')))) \<noteq> None \<and>
   error (step_event (run Q1 [Settle 0 (Inr ''page 1''), Rerender Q2])
           (Settle 1 (Inl (Error ''boom'')))) \<noteq> None \<and>
   error (run Q1 [Settle 0 (Inr ''page 1''), Rerender Q2] :: string useAudits_state) = None \<and>
   data (step_event (run Q1 [Settle 0 (Inr ''page 1''), Rerender Q2])
           (Settle 1 (Inl (Error ''boom'')))) =
     data (run Q1 [Settle 0 (Inr ''page 1''), Rerender Q2])"
  using useAudits_both_only_by_failure_after_load
    [of 1 "Error ''boom''" "run Q1 [Settle 0 (Inr ''page 1''), Rerender Q2] :: string useAudits_state"
        "''page 2''" "Settle 1 (Inl (Error ''boom''))"]
  by (simp add: useAudits_defs Q1_def Q2_def)


section \<open>The filter and sort state of the dashboard (pages/DashboardPage.tsx)\<close>

text \<open>
  The \<^verbatim>\<open>filterParams\<close> state cell: the object literal of the page, every field present.
  The sort handler receives two strings and stores them through a cast.
\<close>

record FilterParams =
  page :: int
  page_size :: int
  strategy_name :: string
  sort_by :: string
  sort_order :: string

definition initial_filterParams :: FilterParams where
  "initial_filterParams =
     \<lparr>page = 1, page_size = 20, strategy_name = '''', sort_by = ''submitted_at'',
      sort_order = ''desc''\<rparr>"

definition handleFilterChange :: "string \<Rightarrow> FilterParams \<Rightarrow> FilterParams" where
  "handleFilterChange strategyName prev = prev\<lparr>strategy_name := strategyName, page := 1\<rparr>"

definition handleSortChange :: "string \<Rightarrow> string \<Rightarrow> FilterParams \<Rightarrow> FilterParams" where
  "handleSortChange sortBy sortOrder prev =
     prev\<lparr>sort_by := sortBy, sort_order := sortOrder, page := 1\<rparr>"

text \<open>\<^verbatim>\<open>useAudits(filterParams)\<close>: the state cell is the query of the loader.\<close>

definition as_query :: "FilterParams \<Rightarrow> QueryParams" where
  "as_query f =
     \<lparr>QueryParams.page = Some (page f), QueryParams.page_size = Some (page_size f),
      QueryParams.strategy_name = Some (strategy_name f),
      QueryParams.sort_by = Some (sort_by f), QueryParams.sort_order = Some (sort_order f)\<rparr>"


section \<open>Properties of the filter and sort state\<close>

lemma handleFilterChange_frame:
  "strategy_name (handleFilterChange strategyName prev) = strategyName \<and>
   page_size (handleFilterChange strategyName prev) = page_size prev \<and>
   sort_by (handleFilterChange strategyName prev) = sort_by prev \<and>
   sort_order (handleFilterChange strategyName prev) = sort_order prev"
  by (simp add: handleFilterChange_def)

lemma handleSortChange_frame:
  "sort_by (handleSortChange sortBy sortOrder prev) = sortBy \<and>
   sort_order (handleSortChange sortBy sortOrder prev) = sortOrder \<and>
   page_size (handleSortChange sortBy sortOrder prev) = page_size prev \<and>
   strategy_name (handleSortChange sortBy sortOrder prev) = strategy_name prev"
  by (simp add: handleSortChange_def)

text \<open>
  C8. Whatever the page was, a change of the text filter or of the sort selection
  leaves the query on page 1, in the state cell and in the query handed to the loader.
\<close>

theorem filter_or_sort_change_resets_page:
  "page (handleFilterChange strategyName prev) = 1 \<and>
   page (handleSortChange sortBy sortOrder prev) = 1 \<and>
   QueryParams.page (as_query (handleFilterChange strategyName prev)) = Some 1 \<and>
   QueryParams.page (as_query (handleSortChange sortBy sortOrder prev)) = Some 1"
  by (simp add: handleFilterChange_def handleSortChange_def as_query_def)


section \<open>The submission wizard (pages/SubmitAuditPage.tsx)\<close>

record Strategy =
  name :: string
  description :: string
  assets :: "string list"
  backtest_sharpe :: real

datatype Mode = quick_select | manual

datatype Step = Step_mode | Step_strategy | Step_asset | Step_confirm

text \<open>
  The value of an object property as far as the page looks at it: \<^verbatim>\<open>undefined\<close>, a
  string, or anything else. An object is a map from property names to such values.
  \<^verbatim>\<open>JSON.stringify\<close> leaves out the properties whose value is \<^verbatim>\<open>undefined\<close>.
\<close>

datatype 'v js = Undefined | Str string | Other 'v

type_synonym 'v obj = "string \<rightharpoonup> 'v js"

definition JSON_stringify :: "'v obj \<Rightarrow> 'v obj" where
  "JSON_stringify ob = (\<lambda>k. case ob k of Some Undefined \<Rightarrow> None | v \<Rightarrow> v)"

text \<open>
  What the three awaited calls of the page settle to, as a parameter: the remote
  service is outside the program, and the client declares neither the catalog fetch
  nor the fetch by name, so a rejection stands for any failure of the call, the one at
  the call site included. The catalog response is read as
  \<^verbatim>\<open>response.strategies || []\<close>, so it carries the list if the property is there; the
  created record is read as \<^verbatim>\<open>result.audit_id\<close>.
\<close>

record 'v remote =
  strategies_reply :: "thrown + Strategy list option"
  strategy_reply :: "string \<Rightarrow> thrown + 'v obj"
  submit_reply :: "'v obj \<Rightarrow> thrown + string"

text \<open>What a handler does besides writing state cells.\<close>

datatype 'v effect = Api "'v obj api_call" | NavigateAfter nat string

record wizard =
  mode :: "Mode option"
  step :: Step
  strategies :: "Strategy list"
  loadingStrategies :: bool
  selectedStrategy :: "Strategy option"
  selectedAsset :: string
  loading :: bool
  error :: "string option"
  success :: "string option"

definition initial_wizard :: wizard where
  "initial_wizard =
     \<lparr>mode = None, step = Step_mode, strategies = [], loadingStrategies = False,
      selectedStrategy = None, selectedAsset = '''', loading = False, error = None,
      success = None\<rparr>"

definition loadStrategies :: "'v remote \<Rightarrow> wizard \<Rightarrow> wizard \<times> 'v effect list" where
  "loadStrategies env s =
     (let s1 = s\<lparr>loadingStrategies := True, error := None\<rparr>;
          s2 = (case strategies_reply env of
                  Inr response \<Rightarrow>
                    s1\<lparr>strategies := (case response of Some xs \<Rightarrow> xs | None \<Rightarrow> []),
                       step := Step_strategy\<rparr>
                | Inl err \<Rightarrow>
                    s1\<lparr>error := Some (message_or err ''Failed to load strategies''),
                       mode := None, step := Step_mode\<rparr>)
      in (s2\<lparr>loadingStrategies := False\<rparr>, [Api Call_getStrategies]))"

text \<open>
  The effect with dependency list \<^verbatim>\<open>[mode]\<close>, run after a render in which the mode
  differs from the one of the previous render.
\<close>

definition mode_effect :: "'v remote \<Rightarrow> Mode option \<Rightarrow> wizard \<Rightarrow> wizard \<times> 'v effect list" where
  "mode_effect env previous s =
     (if mode s \<noteq> previous \<and> mode s = Some quick_select \<and> length (strategies s) = 0
      then loadStrategies env s else (s, []))"

text \<open>
  The state updates of one handler are applied together: for the manual mode the two
  \<^verbatim>\<open>setMode\<close> calls leave the mode at \<^verbatim>\<open>null\<close>.
\<close>

definition handleModeSelect :: "Mode \<Rightarrow> wizard \<Rightarrow> wizard" where
  "handleModeSelect selectedMode s =
     (let s1 = s\<lparr>mode := Some selectedMode\<rparr>
      in if selectedMode = quick_select then s1
         else s1\<lparr>error := Some ''Manual entry mode is not yet implemented. Please use Quick Select.'',
                 mode := None\<rparr>)"

definition handleStrategySelect :: "Strategy \<Rightarrow> wizard \<Rightarrow> wizard" where
  "handleStrategySelect strategy s = s\<lparr>selectedStrategy := Some strategy, step := Step_asset\<rparr>"

definition handleAssetSelect :: "string \<Rightarrow> wizard \<Rightarrow> wizard" where
  "handleAssetSelect asset s = s\<lparr>selectedAsset := asset, step := Step_confirm\<rparr>"

text \<open>The inline handler of the control that skips the asset selection.\<close>

definition skipAsset :: "wizard \<Rightarrow> wizard" where
  "skipAsset s = s\<lparr>selectedAsset := '''', step := Step_confirm\<rparr>"

text \<open>\<^verbatim>\<open>selected_asset: selectedAsset || undefined\<close> on top of the spread record.\<close>

definition build_payload :: "'v obj \<Rightarrow> string \<Rightarrow> 'v obj" where
  "build_payload strategyData asset =
     strategyData(''selected_asset'' \<mapsto> (if asset = '''' then Undefined else Str asset))"

text \<open>
  \<^verbatim>\<open>handleSubmit\<close>, run to its end, each \<^verbatim>\<open>await\<close> answered by \<open>env\<close>. The selection it
  reads is the one of the render in which it was invoked.
\<close>

definition handleSubmit :: "'v remote \<Rightarrow> wizard \<Rightarrow> wizard \<times> 'v effect list" where
  "handleSubmit env s =
     (case selectedStrategy s of
        None \<Rightarrow> (s, [])
      | Some strategy \<Rightarrow>
          (let s1 = s\<lparr>loading := True, error := None, success := None\<rparr>;
               failed = (\<lambda>err. s1\<lparr>error := Some (message_or err ''Failed to submit audit''),
                                  loading := False\<rparr>)
           in case strategy_reply env (name strategy) of
                Inl err \<Rightarrow> (failed err, [Api (Call_getStrategyByName (name strategy))])
              | Inr strategyData \<Rightarrow>
                  (let payload = build_payload strategyData (selectedAsset s);
                       sent = [Api (Call_getStrategyByName (name strategy)),
                               Api (Call_submitAudit payload)]
                   in case submit_reply env payload of
                        Inl err \<Rightarrow> (failed err, sent)
                      | Inr audit_id \<Rightarrow>
                          (s1\<lparr>success := Some (''Audit submitted successfully! Audit ID: '' @ audit_id),
                              loading := False\<rparr>,
                           sent @ [NavigateAfter 1500 (''/audit/'' @ audit_id)]))))"

definition handleBack :: "wizard \<Rightarrow> wizard" where
  "handleBack s =
     (if step s = Step_confirm then s\<lparr>step := Step_asset, selectedAsset := ''''\<rparr>
      else if step s = Step_asset then s\<lparr>step := Step_strategy, selectedStrategy := None\<rparr>
      else if step s = Step_strategy then s\<lparr>step := Step_mode, mode := None\<rparr>
      else s)"

text \<open>
  The controls of the page. Each is rendered under a condition on the state; an event
  on a control that is not rendered, or is disabled, does not occur.
\<close>

datatype wizard_event =
    ModeSelect Mode
  | StrategySelect Strategy
  | AssetSelect string
  | SkipAsset
  | Submit
  | Back

fun offered :: "wizard \<Rightarrow> wizard_event \<Rightarrow> bool" where
  "offered s (ModeSelect m) = (step s = Step_mode)"
| "offered s (StrategySelect strategy) =
     (step s = Step_strategy \<and> \<not> loadingStrategies s \<and> strategy \<in> set (strategies s))"
| "offered s (AssetSelect asset) =
     (step s = Step_asset \<and>
      (case selectedStrategy s of None \<Rightarrow> False | Some strategy \<Rightarrow> asset \<in> set (assets strategy)))"
| "offered s SkipAsset = (step s = Step_asset \<and> selectedStrategy s \<noteq> None)"
| "offered s Submit = (step s = Step_confirm \<and> selectedStrategy s \<noteq> None \<and> \<not> loading s)"
| "offered s Back =
     (step s = Step_strategy \<or>
      ((step s = Step_asset \<or> step s = Step_confirm) \<and> selectedStrategy s \<noteq> None))"

fun handle :: "'v remote \<Rightarrow> wizard_event \<Rightarrow> wizard \<Rightarrow> wizard \<times> 'v effect list" where
  "handle env (ModeSelect m) s = (handleModeSelect m s, [])"
| "handle env (StrategySelect strategy) s = (handleStrategySelect strategy s, [])"
| "handle env (AssetSelect asset) s = (handleAssetSelect asset s, [])"
| "handle env SkipAsset s = (skipAsset s, [])"
| "handle env Submit s = handleSubmit env s"
| "handle env Back s = (handleBack s, [])"

text \<open>One event: the handler, then the render and the effect on the mode.\<close>

definition wizard_step ::
    "wizard \<times> 'v effect list \<Rightarrow> 'v remote \<times> wizard_event \<Rightarrow> wizard \<times> 'v effect list" where
  "wizard_step st ee =
     (let (s, done) = st; (env, ev) = ee
      in if \<not> offered s ev then (s, done)
         else (let (s1, fx1) = handle env ev s;
                   (s2, fx2) = mode_effect env (mode s) s1
               in (s2, done @ fx1 @ fx2)))"

definition wizard_run :: "('v remote \<times> wizard_event) list \<Rightarrow> wizard \<times> 'v effect list" where
  "wizard_run evs = foldl wizard_step (initial_wizard, []) evs"

text \<open>How many catalog fetches a run has issued.\<close>

fun is_catalog_fetch :: "'v effect \<Rightarrow> bool" where
  "is_catalog_fetch (Api Call_getStrategies) = True"
| "is_catalog_fetch (Api (Call_getStrategyByName n)) = False"
| "is_catalog_fetch (Api (Call_submitAudit payload)) = False"
| "is_catalog_fetch (NavigateAfter ms url) = False"

definition catalog_fetches :: "'v effect list \<Rightarrow> nat" where
  "catalog_fetches fx = length (filter is_catalog_fetch fx)"

text \<open>A catalog of two templates and a service that knows them.\<close>

definition alpha :: Strategy where
  "alpha = \<lparr>name = ''alpha'', description = ''momentum'', assets = [''AAPL'', ''MSFT''],
            backtest_sharpe = 1\<rparr>"

definition beta :: Strategy where
  "beta = \<lparr>name = ''beta'', description = ''mean reversion'', assets = [''SPY''],
           backtest_sharpe = 2\<rparr>"

definition service :: "thrown + string \<Rightarrow> unit remote" where
  "service submit_outcome =
     \<lparr>strategies_reply = Inr (Some [alpha, beta]),
      strategy_reply = (\<lambda>n. Inr [''name'' \<mapsto> Str n]),
      submit_reply = (\<lambda>payload. submit_outcome)\<rparr>"


text \<open>The payloads handed to the submit operation, in order.\<close>

fun submitted :: "'v effect list \<Rightarrow> 'v obj list" where
  "submitted [] = []"
| "submitted (Api (Call_submitAudit payload) # fx) = payload # submitted fx"
| "submitted (e # fx) = submitted fx"

fun navigations :: "'v effect list \<Rightarrow> string list" where
  "navigations [] = []"
| "navigations (NavigateAfter ms url # fx) = url # navigations fx"
| "navigations (e # fx) = navigations fx"

text \<open>The step one level before a step; the first step has none before it.\<close>

fun step_before :: "Step \<Rightarrow> Step" where
  "step_before Step_confirm = Step_asset"
| "step_before Step_asset = Step_strategy"
| "step_before Step_strategy = Step_mode"
| "step_before Step_mode = Step_mode"

text \<open>The wizard on its confirmation step: template \<open>alpha\<close>, asset selection skipped.\<close>

definition confirming_alpha :: wizard where
  "confirming_alpha =
     \<lparr>mode = Some quick_select, step = Step_confirm, strategies = [alpha, beta],
      loadingStrategies = False, selectedStrategy = Some alpha, selectedAsset = '''',
      loading = False, error = None, success = None\<rparr>"


section \<open>Properties of the submission wizard\<close>

lemmas wizard_defs =
  wizard_run_def wizard_step_def mode_effect_def loadStrategies_def handleModeSelect_def
  handleStrategySelect_def handleAssetSelect_def skipAsset_def handleBack_def
  handleSubmit_def build_payload_def initial_wizard_def service_def alpha_def beta_def
  message_or_def

lemma confirming_alpha_reachable:
  "fst (wizard_run [(service out, ModeSelect quick_select), (service out, StrategySelect alpha),
                    (service out, SkipAsset)]) = confirming_alpha"
  by (simp add: wizard_defs confirming_alpha_def)

text \<open>Scenario A of the specification: the successful path.\<close>

lemma scenario_A:
  "success (fst (wizard_run
      [(service (Inr ''a-17''), ModeSelect quick_select),
       (service (Inr ''a-17''), StrategySelect alpha),
       (service (Inr ''a-17''), SkipAsset),
       (service (Inr ''a-17''), Submit)]))
     = Some ''Audit submitted successfully! Audit ID: a-17'' \<and>
   navigations (snd (wizard_run
      [(service (Inr ''a-17''), ModeSelect quick_select),
       (service (Inr ''a-17''), StrategySelect alpha),
       (service (Inr ''a-17''), SkipAsset),
       (service (Inr ''a-17''), Submit)])) = [''/audit/a-17'']"
  by (simp add: wizard_defs)

text \<open>A failed catalog fetch puts the wizard back on its first step, with the error shown.\<close>

lemma loadStrategies_failure_returns_to_mode:
  "strategies_reply env = Inl err \<Longrightarrow>
   fst (loadStrategies env s) =
     s\<lparr>loadingStrategies := False,
       error := Some (message_or err ''Failed to load strategies''),
       mode := None, step := Step_mode\<rparr>"
  by (simp add: loadStrategies_def)

lemma manual_mode_reverts:
  "handleModeSelect manual s =
     s\<lparr>mode := None,
       error := Some ''Manual entry mode is not yet implemented. Please use Quick Select.''\<rparr>"
  by (simp add: handleModeSelect_def)

text \<open>
  C10. With no template selected, \<^verbatim>\<open>handleSubmit\<close> returns at once: no request, no
  navigation, and the state is the one it was called in.
\<close>

theorem handleSubmit_without_strategy_is_noop:
  "selectedStrategy s = None \<Longrightarrow> handleSubmit env s = (s, [])"
  by (simp add: handleSubmit_def)

theorem handleSubmit_without_strategy_is_noop_witness:
  "selectedStrategy initial_wizard = None \<and>
   handleSubmit (service (Inr ''a-17'')) initial_wizard = (initial_wizard, [])"
  using handleSubmit_without_strategy_is_noop [of initial_wizard "service (Inr ''a-17'')"]
  by (simp add: initial_wizard_def)

text \<open>
  C5. When the fetch of the template record or the submit call fails with an error of
  message \<open>r\<close>, the wizard shows exactly \<open>r\<close>, is no longer loading, has scheduled no
  navigation, and its step, mode, catalog, template and asset are the ones it had; on
  the confirmation step the submit control is offered again.
\<close>

theorem handleSubmit_failure_keeps_selection:
  assumes "selectedStrategy s = Some strategy"
    and "strategy_reply env (name strategy) = Inl (Error r) \<or>
         (\<exists>strategyData. strategy_reply env (name strategy) = Inr strategyData \<and>
            submit_reply env (build_payload strategyData (selectedAsset s)) = Inl (Error r))"
  shows "error (fst (handleSubmit env s)) = Some r \<and>
         loading (fst (handleSubmit env s)) = False \<and>
         success (fst (handleSubmit env s)) = None \<and>
         step (fst (handleSubmit env s)) = step s \<and>
         mode (fst (handleSubmit env s)) = mode s \<and>
         strategies (fst (handleSubmit env s)) = strategies s \<and>
         selectedStrategy (fst (handleSubmit env s)) = selectedStrategy s \<and>
         selectedAsset (fst (handleSubmit env s)) = selectedAsset s \<and>
         navigations (snd (handleSubmit env s)) = [] \<and>
         offered (fst (handleSubmit env s)) Submit = (step s = Step_confirm)"
  using assms by (auto simp add: handleSubmit_def message_or_def Let_def)

theorem handleSubmit_failure_keeps_selection_witness:
  "selectedStrategy confirming_alpha = Some alpha \<and>
   error (fst (handleSubmit (service (Inl (Error ''asset not in universe''))) confirming_alpha))
     = Some ''asset not in universe'' \<and>
   step (fst (handleSubmit (service (Inl (Error ''asset not in universe''))) confirming_alpha))
     = Step_confirm \<and>
   selectedStrategy
     (fst (handleSubmit (service (Inl (Error ''asset not in universe''))) confirming_alpha))
     = Some alpha \<and>
   selectedAsset
     (fst (handleSubmit (service (Inl (Error ''asset not in universe''))) confirming_alpha))
     = '''' \<and>
   offered (fst (handleSubmit (service (Inl (Error ''asset not in universe''))) confirming_alpha))
     Submit"
  using handleSubmit_failure_keeps_selection
    [of confirming_alpha alpha "service (Inl (Error ''asset not in universe''))"
        "''asset not in universe''"]
  by (simp add: confirming_alpha_def service_def alpha_def)


text \<open>
  C7. On every path that reaches the confirmation step with the asset left empty,
  the one payload handed to the submit operation has \<^verbatim>\<open>selected_asset\<close> set to
  \<^verbatim>\<open>undefined\<close>, whatever the fetched template record holds under that name, the
  serialised body has no such field, and every other property is the one of the
  fetched record. The paths are: the skip control, which empties the asset whatever
  asset was held before; the pick of an empty asset; and a submit in any state whose
  asset is empty.
\<close>

theorem handleSubmit_omits_empty_asset:
  assumes "selectedStrategy s = Some strategy"
    and "strategy_reply env (name strategy) = Inr strategyData"
  shows "step (skipAsset s) = Step_confirm \<and>
         map (\<lambda>payload. payload ''selected_asset'')
             (submitted (snd (handleSubmit env (skipAsset s)))) = [Some Undefined] \<and>
         map (\<lambda>payload. JSON_stringify payload ''selected_asset'')
             (submitted (snd (handleSubmit env (skipAsset s)))) = [None] \<and>
         map (\<lambda>payload. payload(''selected_asset'' := None))
             (submitted (snd (handleSubmit env (skipAsset s))))
           = [strategyData(''selected_asset'' := None)] \<and>
         step (handleAssetSelect '''' s) = Step_confirm \<and>
         map (\<lambda>payload. payload ''selected_asset'')
             (submitted (snd (handleSubmit env (handleAssetSelect '''' s)))) = [Some Undefined] \<and>
         map (\<lambda>payload. JSON_stringify payload ''selected_asset'')
             (submitted (snd (handleSubmit env (handleAssetSelect '''' s)))) = [None] \<and>
         map (\<lambda>payload. payload(''selected_asset'' := None))
             (submitted (snd (handleSubmit env (handleAssetSelect '''' s))))
           = [strategyData(''selected_asset'' := None)] \<and>
         (selectedAsset s = '''' \<longrightarrow>
            map (\<lambda>payload. payload ''selected_asset'')
                (submitted (snd (handleSubmit env s))) = [Some Undefined] \<and>
            map (\<lambda>payload. JSON_stringify payload ''selected_asset'')
                (submitted (snd (handleSubmit env s))) = [None] \<and>
            map (\<lambda>payload. payload(''selected_asset'' := None))
                (submitted (snd (handleSubmit env s)))
              = [strategyData(''selected_asset'' := None)])"
  using assms
  by (cases "submit_reply env (build_payload strategyData '''')")
     (simp_all add: handleSubmit_def Let_def build_payload_def JSON_stringify_def
        skipAsset_def handleAssetSelect_def)

text \<open>
  The theorem at a state on the asset step that still holds the asset \<open>AAPL\<close>:
  submitted as it is, the asset would be sent; after the skip control it is not.
\<close>

theorem handleSubmit_omits_empty_asset_witness:
  "selectedStrategy (confirming_alpha\<lparr>step := Step_asset, selectedAsset := ''AAPL''\<rparr>)
     = Some alpha \<and>
   strategy_reply (service (Inr ''a-17'')) (name alpha) = Inr [''name'' \<mapsto> Str ''alpha''] \<and>
   map (\<lambda>payload. JSON_stringify payload ''selected_asset'')
       (submitted (snd (handleSubmit (service (Inr ''a-17''))
          (confirming_alpha\<lparr>step := Step_asset, selectedAsset := ''AAPL''\<rparr>))))
     = [Some (Str ''AAPL'')] \<and>
   step (skipAsset (confirming_alpha\<lparr>step := Step_asset, selectedAsset := ''AAPL''\<rparr>))
     = Step_confirm \<and>
   map (\<lambda>payload. JSON_stringify payload ''selected_asset'')
       (submitted (snd (handleSubmit (service (Inr ''a-17''))
          (skipAsset (confirming_alpha\<lparr>step := Step_asset, selectedAsset := ''AAPL''\<rparr>)))))
     = [None] \<and>
   map (\<lambda>payload. JSON_stringify payload ''selected_asset'')
       (submitted (snd (handleSubmit (service (Inr ''a-17'')) confirming_alpha))) = [None]"
  using handleSubmit_omits_empty_asset
    [of "confirming_alpha\<lparr>step := Step_asset, selectedAsset := ''AAPL''\<rparr>" alpha
        "service (Inr ''a-17'')" "[''name'' \<mapsto> Str ''alpha'']"]
    handleSubmit_omits_empty_asset
    [of confirming_alpha alpha "service (Inr ''a-17'')" "[''name'' \<mapsto> Str ''alpha'']"]
  by (simp add: confirming_alpha_def service_def alpha_def handleSubmit_def build_payload_def
        JSON_stringify_def)

lemma handleSubmit_sends_chosen_asset:
  assumes "selectedStrategy s = Some strategy"
    and "selectedAsset s \<noteq> ''''"
    and "strategy_reply env (name strategy) = Inr strategyData"
  shows "map (\<lambda>payload. JSON_stringify payload ''selected_asset'')
             (submitted (snd (handleSubmit env s))) = [Some (Str (selectedAsset s))]"
  using assms
  by (cases "submit_reply env (build_payload strategyData (selectedAsset s))")
     (simp_all add: handleSubmit_def Let_def build_payload_def JSON_stringify_def)

text \<open>
  C6, as stated: backing out of the asset step keeps the chosen template. On the path
  that picks \<open>alpha\<close> and goes back from the asset step, the template is gone.
\<close>

theorem handleBack_from_asset_counterexample:
  "step (fst (wizard_run [(service (Inr ''a-17''), ModeSelect quick_select),
                          (service (Inr ''a-17''), StrategySelect alpha)])) = Step_asset \<and>
   selectedStrategy (fst (wizard_run [(service (Inr ''a-17''), ModeSelect quick_select),
                                      (service (Inr ''a-17''), StrategySelect alpha)]))
     = Some alpha \<and>
   step (fst (wizard_run [(service (Inr ''a-17''), ModeSelect quick_select),
                          (service (Inr ''a-17''), StrategySelect alpha),
                          (service (Inr ''a-17''), Back)])) = Step_strategy \<and>
   selectedStrategy (fst (wizard_run [(service (Inr ''a-17''), ModeSelect quick_select),
                                      (service (Inr ''a-17''), StrategySelect alpha),
                                      (service (Inr ''a-17''), Back)]))
     = None"
  by (simp add: wizard_defs)

text \<open>
  C6, amended. \<^verbatim>\<open>handleBack\<close> goes exactly one step back (and does nothing on the first
  step), and clears exactly the choice made on the step it returns to: from the
  confirmation step it empties the asset and keeps the template and the mode; from the
  asset step it clears the template and keeps the asset and the mode; from the
  template step it clears the mode and keeps template and asset. The catalog and the
  loading, error and success cells are never touched.
\<close>

theorem handleBack_one_step_and_frame:
  "step (handleBack s) = step_before (step s) \<and>
   strategies (handleBack s) = strategies s \<and>
   loadingStrategies (handleBack s) = loadingStrategies s \<and>
   loading (handleBack s) = loading s \<and>
   error (handleBack s) = error s \<and>
   success (handleBack s) = success s \<and>
   (step s = Step_confirm \<longrightarrow>
      selectedAsset (handleBack s) = '''' \<and>
      selectedStrategy (handleBack s) = selectedStrategy s \<and> mode (handleBack s) = mode s) \<and>
   (step s = Step_asset \<longrightarrow>
      selectedStrategy (handleBack s) = None \<and>
      selectedAsset (handleBack s) = selectedAsset s \<and> mode (handleBack s) = mode s) \<and>
   (step s = Step_strategy \<longrightarrow>
      mode (handleBack s) = None \<and>
      selectedStrategy (handleBack s) = selectedStrategy s \<and>
      selectedAsset (handleBack s) = selectedAsset s) \<and>
   (step s = Step_mode \<longrightarrow> handleBack s = s)"
  by (cases "step s") (simp_all add: handleBack_def)

theorem handleBack_one_step_and_frame_witness:
  "step confirming_alpha = Step_confirm \<and>
   step (handleBack confirming_alpha) = Step_asset \<and>
   selectedAsset (handleBack confirming_alpha) = '''' \<and>
   selectedStrategy (handleBack confirming_alpha) = Some alpha \<and>
   step (handleBack confirming_alpha) = Step_asset \<and>
   selectedStrategy (handleBack (handleBack confirming_alpha)) = None \<and>
   step (handleBack (handleBack confirming_alpha)) = Step_strategy \<and>
   mode (handleBack (handleBack confirming_alpha)) = Some quick_select \<and>
   mode (handleBack (handleBack (handleBack confirming_alpha))) = None \<and>
   step (handleBack (handleBack (handleBack confirming_alpha))) = Step_mode"
  using handleBack_one_step_and_frame [of confirming_alpha]
    handleBack_one_step_and_frame [of "handleBack confirming_alpha"]
    handleBack_one_step_and_frame [of "handleBack (handleBack confirming_alpha)"]
  by (simp add: confirming_alpha_def)

text \<open>
  C9, as stated: after the wizard is back on its first step, entering the catalog
  mode again fetches the catalog again. On the path quick select, back, quick select
  the catalog is fetched once: the second entry finds the catalog non-empty and issues
  no request.
\<close>

theorem catalog_not_refetched_counterexample:
  "catalog_fetches (snd (wizard_run [(service (Inr ''a-17''), ModeSelect quick_select)])) = 1 \<and>
   step (fst (wizard_run [(service (Inr ''a-17''), ModeSelect quick_select),
                          (service (Inr ''a-17''), Back)])) = Step_mode \<and>
   mode (fst (wizard_run [(service (Inr ''a-17''), ModeSelect quick_select),
                          (service (Inr ''a-17''), Back)])) = None \<and>
   strategies (fst (wizard_run [(service (Inr ''a-17''), ModeSelect quick_select),
                                (service (Inr ''a-17''), Back)])) = [alpha, beta] \<and>
   mode (fst (wizard_run [(service (Inr ''a-17''), ModeSelect quick_select),
                          (service (Inr ''a-17''), Back),
                          (service (Inr ''a-17''), ModeSelect quick_select)]))
     = Some quick_select \<and>
   catalog_fetches (snd (wizard_run [(service (Inr ''a-17''), ModeSelect quick_select),
                                     (service (Inr ''a-17''), Back),
                                     (service (Inr ''a-17''), ModeSelect quick_select)])) = 1"
  by (simp add: wizard_defs catalog_fetches_def)

lemma catalog_fetches_append:
  "catalog_fetches (fx @ fx') = catalog_fetches fx + catalog_fetches fx'"
  by (simp add: catalog_fetches_def)

lemma catalog_fetches_Nil: "catalog_fetches [] = 0"
  by (simp add: catalog_fetches_def)

lemma catalog_fetches_loadStrategies: "catalog_fetches (snd (loadStrategies env s)) = 1"
  by (simp add: loadStrategies_def catalog_fetches_def Let_def)

text \<open>
  C9, amended. The catalog lives as long as the wizard instance: it is empty when the
  wizard starts, and neither back nor the manual-entry revert changes it. Entering the
  catalog mode from the first step issues a catalog fetch exactly when the catalog
  held is empty; a catalog fetched before and not empty is kept and no request is made.
\<close>

theorem catalog_fetched_only_when_empty:
  "strategies initial_wizard = [] \<and>
   strategies (handleBack s) = strategies s \<and>
   strategies (handleModeSelect manual s) = strategies s \<and>
   (step s = Step_mode \<and> mode s = None \<longrightarrow>
      catalog_fetches (snd (wizard_step (s, fx) (env, ModeSelect quick_select)))
        = catalog_fetches fx + (if strategies s = [] then 1 else 0) \<and>
      (strategies s \<noteq> [] \<longrightarrow>
         strategies (fst (wizard_step (s, fx) (env, ModeSelect quick_select))) = strategies s))"
proof -
  have a: "strategies initial_wizard = []" by (simp add: initial_wizard_def)
  have b: "strategies (handleBack s) = strategies s" by (simp add: handleBack_def)
  have c: "strategies (handleModeSelect manual s) = strategies s"
    by (simp add: handleModeSelect_def)
  have d: "catalog_fetches (snd (wizard_step (s, fx) (env, ModeSelect quick_select)))
        = catalog_fetches fx + (if strategies s = [] then 1 else 0)"
    if "step s = Step_mode" "mode s = None"
    using that catalog_fetches_loadStrategies [of env "s\<lparr>mode := Some quick_select\<rparr>"]
    by (simp add: wizard_step_def mode_effect_def handleModeSelect_def split_def Let_def
          catalog_fetches_append catalog_fetches_Nil)
  have e: "strategies (fst (wizard_step (s, fx) (env, ModeSelect quick_select))) = strategies s"
    if "step s = Step_mode" "mode s = None" "strategies s \<noteq> []"
    using that by (simp add: wizard_step_def mode_effect_def handleModeSelect_def)
  from a b c d e show ?thesis by blast
qed

theorem catalog_fetched_only_when_empty_witness:
  "step (handleBack (fst (loadStrategies (service (Inr ''a-17'')) initial_wizard))) = Step_mode \<and>
   mode (handleBack (fst (loadStrategies (service (Inr ''a-17'')) initial_wizard))) = None \<and>
   strategies (handleBack (fst (loadStrategies (service (Inr ''a-17'')) initial_wizard)))
     = [alpha, beta] \<and>
   catalog_fetches
     (snd (wizard_step
        (handleBack (fst (loadStrategies (service (Inr ''a-17'')) initial_wizard)), [])
        (service (Inr ''a-17''), ModeSelect quick_select))) = 0 \<and>
   catalog_fetches
     (snd (wizard_step (initial_wizard, []) (service (Inr ''a-17''), ModeSelect quick_select)))
     = 1"
  using catalog_fetched_only_when_empty
    [of "handleBack (fst (loadStrategies (service (Inr ''a-17'')) initial_wizard))"
        "[]" "service (Inr ''a-17'')"]
    catalog_fetched_only_when_empty [of initial_wizard "[]" "service (Inr ''a-17'')"]
  by (simp add: loadStrategies_def handleBack_def initial_wizard_def service_def
        catalog_fetches_def)

end
